theory Spec2Isabelle
  imports
    Complex_Main
    "HOL-Library.AList"
    "HOL-Library.Char_ord"
    "HOL-Library.List_Lexorder"
    "HOL-Library.Multiset"
begin

section \<open>Values carried by native messages\<close>

text \<open>
  The \<^verbatim>\<open>data\<close> field of a native message is typed \<^verbatim>\<open>any\<close>. The handlers only test
  it for truthiness, ask whether it owns a \<^verbatim>\<open>wallpaper\<close> property and pass it on, so a
  JSON-like value type is enough. An object is an association list in key order. Numbers
  are the finite ones a JSON message can carry.
\<close>

datatype jsval =
    JUndefined
  | JNull
  | JBool bool
  | JNum real
  | JStr string
  | JArr "jsval list"
  | JObj "(string \<times> jsval) list"

text \<open>JavaScript's \<^verbatim>\<open>ToBoolean\<close>: what \<^verbatim>\<open>if (v)\<close> and \<^verbatim>\<open>!v\<close> look at.\<close>

fun truthy :: "jsval \<Rightarrow> bool" where
  "truthy JUndefined = False"
| "truthy JNull = False"
| "truthy (JBool b) = b"
| "truthy (JNum x) = (x \<noteq> 0)"
| "truthy (JStr s) = (s \<noteq> [])"
| "truthy (JArr xs) = True"
| "truthy (JObj kvs) = True"

text \<open>An exception that leaves a function.\<close>

datatype js_error = TypeError

text \<open>Whether a value is an object that has the key among its own properties.\<close>

fun object_owns :: "jsval \<Rightarrow> string \<Rightarrow> bool" where
  "object_owns (JObj kvs) k = (k \<in> set (map fst kvs))"
| "object_owns v k = False"

text \<open>
  \<^verbatim>\<open>pywalData.hasOwnProperty('wallpaper')\<close> is a method call: the property
  \<^verbatim>\<open>hasOwnProperty\<close> is first read from the payload, then called.
  \<^item> On \<^verbatim>\<open>undefined\<close> and \<^verbatim>\<open>null\<close> the read throws a \<^verbatim>\<open>TypeError\<close>.
  \<^item> An object that has a key \<^verbatim>\<open>hasOwnProperty\<close> of its own hides the method of
    \<^verbatim>\<open>Object.prototype\<close>; none of the values here is a function, so the call throws a
    \<^verbatim>\<open>TypeError\<close>.
  \<^item> Any other object inherits the method, which answers whether \<^verbatim>\<open>wallpaper\<close> is one of
    its keys.
  \<^item> An array, and the wrapper of a string, a number or a boolean, inherit the method too;
    their own properties are indices and \<^verbatim>\<open>length\<close>, or none, so the answer is no.
\<close>

fun hasOwnProperty_wallpaper :: "jsval \<Rightarrow> js_error + bool" where
  "hasOwnProperty_wallpaper JUndefined = Inl TypeError"
| "hasOwnProperty_wallpaper JNull = Inl TypeError"
| "hasOwnProperty_wallpaper (JObj kvs) =
     (if object_owns (JObj kvs) ''hasOwnProperty'' then Inl TypeError
      else Inr (object_owns (JObj kvs) ''wallpaper''))"
| "hasOwnProperty_wallpaper v = Inr False"

section \<open>The native messaging session (native-messenger.ts)\<close>

text \<open>
  \<^verbatim>\<open>NativeAppErrors\<close> and the message interfaces come from \<^verbatim>\<open>@definitions\<close>; the
  constructors and fields below are the ones the class names.
\<close>

datatype NativeAppErrors = None' | ManifestNotInstalled | UnexpectedError | Unknown

record INativeAppError =
  err_type :: NativeAppErrors
  err_message :: "string option"  \<comment> \<open>\<^verbatim>\<open>None\<close> is \<^verbatim>\<open>null\<close>\<close>

record INativeAppMessage =
  action :: string
  success :: "bool option"  \<comment> \<open>\<^verbatim>\<open>None\<close>: the field is absent\<close>
  error :: "string option"  \<comment> \<open>\<^verbatim>\<open>None\<close>: the field is absent (\<^verbatim>\<open>undefined\<close>)\<close>
  data :: "jsval option"  \<comment> \<open>\<^verbatim>\<open>None\<close>: the message has no own property \<^verbatim>\<open>data\<close>\<close>

record INativeAppRequest =
  req_action :: string
  req_target :: "string option"
  req_size :: "real option"

text \<open>The action tags of \<^verbatim>\<open>@config/general\<close> that the request methods use.\<close>

record NATIVE_MESSAGES =
  VERSION :: string
  PYWAL_COLORS :: string
  CSS_ENABLE :: string
  CSS_DISABLE :: string
  CSS_FONT_SIZE :: string

text \<open>The error object of a disconnected port, and the port as \<^verbatim>\<open>onDisconnect\<close> reads it.\<close>

datatype PortError = PortError (message: string)

record Port =
  port_error :: "PortError option"

text \<open>
  Everything the class does to the outside goes through the callbacks handed to its
  constructor and through \<^verbatim>\<open>port.postMessage\<close>. Each such call is an event, recorded in
  the order it is made.
\<close>

datatype event =
    Output string "bool option"  \<comment> \<open>\<^verbatim>\<open>callbacks.output(message, error)\<close>\<close>
  | PostMessage INativeAppRequest  \<comment> \<open>\<^verbatim>\<open>port.postMessage(message)\<close>\<close>
  | Disconnected INativeAppError
  | Version jsval
  | UpdateNeeded
  | PywalColorsFetchSuccess jsval
  | PywalColorsFetchFailed "string option"

text \<open>
  The fields of the object, and the two parts of the environment its methods touch: the
  timers that are armed, and the calls made so far. \<^verbatim>\<open>isConnected\<close> and the two timer
  handles are declared without initialiser, so they start as \<^verbatim>\<open>undefined\<close>
  (\<^verbatim>\<open>None\<close>).
\<close>

record NativeApp =
  isConnected :: "bool option"
  versionCheckTimeout :: "nat option"
  connectedCheckTimeout :: "nat option"
  armedTimers :: "nat set"
  calls :: "event list"

definition clearTimeout :: "nat option \<Rightarrow> NativeApp \<Rightarrow> NativeApp" where
  "clearTimeout handle s =
     (case handle of
        None \<Rightarrow> s
      | Some t \<Rightarrow> s\<lparr>armedTimers := armedTimers s - {t}\<rparr>)"

definition log :: "string \<Rightarrow> bool option \<Rightarrow> NativeApp \<Rightarrow> NativeApp" where
  "log msg err s = s\<lparr>calls := calls s @ [Output msg err]\<rparr>"

definition logError :: "string \<Rightarrow> NativeApp \<Rightarrow> NativeApp" where
  "logError err s = log err (Some True) s"

definition getData :: "INativeAppMessage \<Rightarrow> NativeApp \<Rightarrow> jsval \<times> NativeApp" where
  "getData msg s =
     (case data msg of
        Some d \<Rightarrow> (d, s)
      | None \<Rightarrow>
          (JNull,
           logError ''Recieved invalid message from native app. The 'data' field is undefined.'' s))"

definition onVersionResponse :: "INativeAppMessage \<Rightarrow> NativeApp \<Rightarrow> NativeApp" where
  "onVersionResponse msg s =
     (let (version, s1) = getData msg s;
          s2 = (if truthy version
                then s1\<lparr>calls := calls s1 @ [Version version]\<rparr>
                else s1\<lparr>calls := calls s1 @ [UpdateNeeded]\<rparr>)
      in clearTimeout (versionCheckTimeout s2) s2)"

text \<open>
  \<^verbatim>\<open>onPywalColorsResponse\<close> either returns, with the state it leaves (\<open>Inr\<close>), or is left
  by the exception of the \<^verbatim>\<open>hasOwnProperty\<close> call, with the state at that moment
  (\<open>Inl\<close>).
\<close>

definition onPywalColorsResponse ::
  "INativeAppMessage \<Rightarrow> NativeApp \<Rightarrow> js_error \<times> NativeApp + NativeApp" where
  "onPywalColorsResponse msg s =
     (if success msg \<noteq> Some True
      then Inr (s\<lparr>calls := calls s @ [PywalColorsFetchFailed (error msg)]\<rparr>)
      else
        (let (pywalData, s1) = getData msg s in
         if \<not> truthy pywalData
         then Inr (logError ''Pywal data was read successfully but contained null'' s1)
         else
           (case hasOwnProperty_wallpaper pywalData of
              Inl e \<Rightarrow> Inl (e, s1)
            | Inr True \<Rightarrow> Inr (s1\<lparr>calls := calls s1 @ [PywalColorsFetchSuccess pywalData]\<rparr>)
            | Inr False \<Rightarrow>
                Inr (s1\<lparr>calls := calls s1 @
                       [PywalColorsFetchSuccess
                          (JObj [(''colors'', pywalData), (''wallpaper'', JNull)])]\<rparr>))))"

text \<open>
  \<^verbatim>\<open>onDisconnect\<close>. The \<^verbatim>\<open>switch\<close> has no \<^verbatim>\<open>break\<close>: control enters at the matching
  label and runs every assignment from there to the end, so \<open>entry\<close> is the label
  reached and each assignment is executed when the entry is at or before it. The text the
  template literal renders for the error object is the browser's; it is the parameter
  \<open>render\<close>. The two \<^verbatim>\<open>console\<close> calls are not modelled.
\<close>

definition onDisconnect :: "(PortError option \<Rightarrow> string) \<Rightarrow> Port \<Rightarrow> NativeApp \<Rightarrow> NativeApp" where
  "onDisconnect render port s =
     (let err = port_error port;
          s1 = clearTimeout (versionCheckTimeout s) s;
          s2 = clearTimeout (connectedCheckTimeout s1) s1;
          nativeError = \<lparr>err_type = None', err_message = None\<rparr>;
          nativeError1 =
            (case err of
               None \<Rightarrow> nativeError
             | Some e \<Rightarrow>
                 (let entry =
                        (if message e = ''Error: No such native application pywalfox'' then 0
                         else if message e = ''Error: An unexpected error occurred'' then 1
                         else (2::nat));
                      n1 = (if entry \<le> 0
                            then nativeError\<lparr>err_type := ManifestNotInstalled\<rparr>
                            else nativeError);
                      n2 = (if entry \<le> 1 then n1\<lparr>err_type := UnexpectedError\<rparr> else n1);
                      n3 = n2\<lparr>err_type := Unknown\<rparr>
                  in n3\<lparr>err_message := Some (message e)\<rparr>));
          s3 = logError (''Disconnected from native messaging host: '' @ render err) s2
      in s3\<lparr>calls := calls s3 @ [Disconnected nativeError1]\<rparr>)"

definition sendMessage :: "INativeAppRequest \<Rightarrow> NativeApp \<Rightarrow> NativeApp" where
  "sendMessage msg s =
     (if isConnected s \<noteq> Some True
      then logError ''Failed to send data to native app. You are not connected'' s
      else s\<lparr>calls := calls s @ [PostMessage msg]\<rparr>)"

definition requestVersion :: "NATIVE_MESSAGES \<Rightarrow> NativeApp \<Rightarrow> NativeApp" where
  "requestVersion nm s =
     sendMessage \<lparr>req_action = VERSION nm, req_target = None, req_size = None\<rparr> s"

definition requestPywalColors :: "NATIVE_MESSAGES \<Rightarrow> NativeApp \<Rightarrow> NativeApp" where
  "requestPywalColors nm s =
     sendMessage \<lparr>req_action = PYWAL_COLORS nm, req_target = None, req_size = None\<rparr> s"

definition requestCssEnabled :: "NATIVE_MESSAGES \<Rightarrow> string \<Rightarrow> bool \<Rightarrow> NativeApp \<Rightarrow> NativeApp" where
  "requestCssEnabled nm target enabled s =
     (let act = (if enabled then CSS_ENABLE nm else CSS_DISABLE nm)
      in sendMessage \<lparr>req_action = act, req_target = Some target, req_size = None\<rparr> s)"

definition requestFontSizeSet :: "NATIVE_MESSAGES \<Rightarrow> string \<Rightarrow> real \<Rightarrow> NativeApp \<Rightarrow> NativeApp" where
  "requestFontSizeSet nm target sz s =
     sendMessage \<lparr>req_action = CSS_FONT_SIZE nm, req_target = Some target, req_size = Some sz\<rparr> s"

section \<open>Objects, arrays and strings as the colorscheme code uses them\<close>

text \<open>
  A plain object is an association list in the order \<^verbatim>\<open>Object.keys\<close> enumerates it, with
  no key twice. A property can hold \<^verbatim>\<open>undefined\<close> (\<open>None\<close>): the template lookups write
  it through when a key or an index is missing. Reading a key that is absent gives
  \<^verbatim>\<open>undefined\<close> too. Assigning to a key keeps its position when it exists and appends it
  otherwise, which is what \<open>AList.update\<close> does. (Keys that look like array indices
  would be enumerated first; colour roles are not of that form.)
\<close>

type_synonym jsobject = "(string \<times> string option) list"

type_synonym IPalette = jsobject

type_synonym IBrowserTheme = jsobject

type_synonym IPywalColors = "string list"

definition Object_keys :: "(string \<times> 'v) list \<Rightarrow> string list" where
  "Object_keys obj = map fst obj"

definition obj_get :: "jsobject \<Rightarrow> string \<Rightarrow> string option" where
  "obj_get obj k = (case map_of obj k of None \<Rightarrow> None | Some v \<Rightarrow> v)"

definition obj_set :: "(string \<times> 'v) list \<Rightarrow> string \<Rightarrow> 'v \<Rightarrow> (string \<times> 'v) list" where
  "obj_set obj k v = AList.update k v obj"

text \<open>\<^verbatim>\<open>Object.assign(target, source)\<close>: every own property of the source, in order.\<close>

definition Object_assign :: "jsobject \<Rightarrow> jsobject \<Rightarrow> jsobject" where
  "Object_assign target source = fold (\<lambda>(k, v) obj. obj_set obj k v) source target"

text \<open>
  \<^verbatim>\<open>values[i]\<close> on an array: \<^verbatim>\<open>undefined\<close> outside the array, and for the index
  \<^verbatim>\<open>undefined\<close> that a missing template entry produces.
\<close>

definition array_get :: "'a list \<Rightarrow> int \<Rightarrow> 'a option" where
  "array_get xs i = (if 0 \<le> i \<and> i < int (length xs) then Some (xs ! nat i) else None)"

definition array_index :: "IPywalColors \<Rightarrow> int option \<Rightarrow> string option" where
  "array_index values i = (case i of None \<Rightarrow> None | Some j \<Rightarrow> array_get values j)"

text \<open>\<^verbatim>\<open>values[k]\<close> on an object: the key \<^verbatim>\<open>undefined\<close> is read as the string.\<close>

definition object_index :: "jsobject \<Rightarrow> string option \<Rightarrow> string option" where
  "object_index values k =
     (case k of None \<Rightarrow> obj_get values ''undefined'' | Some key \<Rightarrow> obj_get values key)"


text \<open>
  \<^verbatim>\<open>Array.prototype.sort\<close> with a comparison function. The language leaves the algorithm
  to the engine; this is insertion from the right, which is stable. The keys of an object
  are distinct, and on distinct strings the comparator of \<^verbatim>\<open>generatePaletteHash\<close> is a
  total order, so any sorting algorithm returns the same list there
  (lemma \<open>array_sort_compareKeys_unique\<close> below).
\<close>

fun insert_by :: "('a \<Rightarrow> 'a \<Rightarrow> int) \<Rightarrow> 'a \<Rightarrow> 'a list \<Rightarrow> 'a list" where
  "insert_by cmp x [] = [x]"
| "insert_by cmp x (y # ys) = (if cmp x y > 0 then y # insert_by cmp x ys else x # y # ys)"

definition array_sort :: "('a \<Rightarrow> 'a \<Rightarrow> int) \<Rightarrow> 'a list \<Rightarrow> 'a list" where
  "array_sort cmp xs = foldr (insert_by cmp) xs []"

text \<open>A template literal renders \<^verbatim>\<open>undefined\<close> as that word.\<close>

definition interpolate :: "string option \<Rightarrow> string" where
  "interpolate v = (case v of None \<Rightarrow> ''undefined'' | Some s \<Rightarrow> s)"

section \<open>Colorscheme generation\<close>

text \<open>
  The types of \<^verbatim>\<open>@definitions\<close>, as the functions use them. Numbers that are only handed
  to \<^verbatim>\<open>changeLuminance\<close> (modifier, min, max) have the type parameter \<open>'n\<close>.
\<close>

datatype ThemeModes = Dark | Light | Auto

datatype 'n IExtendedPywalColor =
    ICustomPywalColor (targetIndex: int) (colorString: string)
  | IModifiedPywalColor (targetIndex: int) (colorIndex: int) (modifier: 'n)
      (min_lum: "'n option") (max_lum: "'n option")

record ITemplateItem =
  target :: string
  cssVariable :: "string option"

type_synonym IPaletteTemplate = "(string \<times> int) list"

type_synonym IThemeTemplate = "(string \<times> string) list"

record 'n IDuckDuckGoThemeTemplateItem =
  colorKey :: string
  item_modifier :: "'n option"  \<comment> \<open>\<open>None\<close>: the item has no own property \<^verbatim>\<open>modifier\<close>\<close>

type_synonym 'n IDuckDuckGoThemeTemplate = "(string \<times> 'n IDuckDuckGoThemeTemplateItem) list"

type_synonym IDuckDuckGoTheme = "(string \<times> string) list"

record 'n IColorschemeTemplate =
  template_palette :: IPaletteTemplate
  template_browser :: IThemeTemplate
  template_duckduckgo :: "'n IDuckDuckGoThemeTemplate"

record IColorscheme =
  hash :: string
  palette :: IPalette
  browser :: IBrowserTheme
  extension :: string
  duckduckgo :: IDuckDuckGoTheme
  darkreader :: jsobject

text \<open>
  Modelled from the spec: \<^verbatim>\<open>changeLuminance\<close> of \<^verbatim>\<open>@utils/colors\<close> is not among the
  sources. The specification describes it as a luminance function of a source colour,
  a modifier and a clamping range, with no error path; it is a parameter here, any total
  function from its arguments to a colour string. The constants of \<^verbatim>\<open>@config\<close> that the
  generators read are parameters as well.
\<close>

type_synonym 'n luminance = "string option \<Rightarrow> 'n \<Rightarrow> 'n option \<Rightarrow> 'n option \<Rightarrow> string"

record 'n config =
  PALETTE_TEMPLATE_DATA :: "ITemplateItem list"
  BROWSER_TEMPLATE_DATA :: "ITemplateItem list"
  EXTENSION_THEME_SELCTOR :: string
  EXTENDED_PYWAL_COLORS :: "'n IExtendedPywalColor list"
  changeLuminance :: "'n luminance"



text \<open>
  \<^verbatim>\<open>generatePywalPalette\<close> works on arrays that the caller can see, so it is modelled on
  a store: a list of arrays, an array's address being its position. The argument is the
  address of the caller's array. The spread \<^verbatim>\<open>[...pywalColors]\<close> allocates a new array at
  the end of the store, each \<^verbatim>\<open>splice\<close> updates the array at that address, and the
  function returns the address with the store it leaves.
\<close>

type_synonym store = "string list list"


definition stripHashSymbol :: "string option \<Rightarrow> js_error + string" where
  "stripHashSymbol color = (case color of None \<Rightarrow> Inl TypeError | Some c \<Rightarrow> Inr (drop 1 c))"

definition createObjectFromTemplateData ::
  "ITemplateItem list \<Rightarrow> ('i option \<Rightarrow> string option) \<Rightarrow> (string \<times> 'i) list \<Rightarrow> jsobject" where
  "createObjectFromTemplateData items values template =
     foldl (\<lambda>obj item. obj_set obj (target item) (values (map_of template (target item))))
       [] items"

definition generatePalette ::
  "'n config \<Rightarrow> IPywalColors \<Rightarrow> jsobject \<Rightarrow> IPaletteTemplate \<Rightarrow> IPalette" where
  "generatePalette cfg pywalColors customColors template =
     (let defaultPalette =
            createObjectFromTemplateData (PALETTE_TEMPLATE_DATA cfg)
              (array_index pywalColors) template
      in Object_assign defaultPalette customColors)"

text \<open>
  \<^verbatim>\<open>generatePaletteHash\<close>. The comparator, the loop over the sorted keys (a
  \<^verbatim>\<open>TypeError\<close> when a value is \<^verbatim>\<open>undefined\<close>, since \<^verbatim>\<open>substring\<close> is then read from
  \<^verbatim>\<open>undefined\<close>), and the function.
\<close>

definition compareKeys :: "string \<Rightarrow> string \<Rightarrow> int" where
  "compareKeys a b = (if a > b then 1 else - 1)"

fun hashKeys :: "IPalette \<Rightarrow> string list \<Rightarrow> string \<Rightarrow> js_error + string" where
  "hashKeys pal [] acc = Inr acc"
| "hashKeys pal (key # keys) acc =
     (case stripHashSymbol (obj_get pal key) of
        Inl e \<Rightarrow> Inl e
      | Inr stripped \<Rightarrow> hashKeys pal keys (acc @ stripped))"

definition generatePaletteHash :: "IPalette \<Rightarrow> js_error + string" where
  "generatePaletteHash pal =
     (let colors = array_sort compareKeys (Object_keys pal)
      in hashKeys pal colors [])"

definition generateBrowserTheme :: "'n config \<Rightarrow> IPalette \<Rightarrow> IThemeTemplate \<Rightarrow> IBrowserTheme" where
  "generateBrowserTheme cfg pal template =
     createObjectFromTemplateData (BROWSER_TEMPLATE_DATA cfg) (object_index pal) template"

fun duckduckgoKeys ::
  "'n luminance \<Rightarrow> IPalette \<Rightarrow> 'n IDuckDuckGoThemeTemplate \<Rightarrow> string list \<Rightarrow> IDuckDuckGoTheme
     \<Rightarrow> js_error + IDuckDuckGoTheme" where
  "duckduckgoKeys lum pal template [] theme = Inr theme"
| "duckduckgoKeys lum pal template (key # keys) theme =
     (case map_of template key of
        None \<Rightarrow> Inl TypeError
      | Some item \<Rightarrow>
          (let color = obj_get pal (colorKey item);
               color1 = (case item_modifier item of
                           None \<Rightarrow> color
                         | Some m \<Rightarrow> Some (lum color m None None))
           in case stripHashSymbol color1 of
                Inl e \<Rightarrow> Inl e
              | Inr stripped \<Rightarrow>
                  duckduckgoKeys lum pal template keys (obj_set theme key stripped)))"

definition generateDuckduckgoTheme ::
  "'n config \<Rightarrow> IPalette \<Rightarrow> 'n IDuckDuckGoThemeTemplate \<Rightarrow> js_error + IDuckDuckGoTheme" where
  "generateDuckduckgoTheme cfg pal template =
     duckduckgoKeys (changeLuminance cfg) pal template (Object_keys template) []"

definition generateExtensionTheme :: "'n config \<Rightarrow> IPalette \<Rightarrow> string" where
  "generateExtensionTheme cfg pal =
     (let variables =
            foldl (\<lambda>variables item.
                     variables @ interpolate (cssVariable item) @ '':'' @
                       interpolate (obj_get pal (target item)) @ '';'')
              [] (PALETTE_TEMPLATE_DATA cfg)
      in EXTENSION_THEME_SELCTOR cfg @ ''{'' @ variables @ ''}'')"

definition generateDarkreaderScheme :: "IPalette \<Rightarrow> ThemeModes \<Rightarrow> jsobject" where
  "generateDarkreaderScheme p mode =
     (let background = obj_get p ''background'';
          text = obj_get p ''text''
      in if mode = Dark
         then [(''darkSchemeTextColor'', text), (''darkSchemeBackgroundColor'', background)]
         else [(''lightSchemeTextColor'', text), (''lightSchemeBackgroundColor'', background)])"

text \<open>
  \<^verbatim>\<open>generateColorscheme\<close>. The properties of the object literal are evaluated in the order
  written, so an exception of the hash comes before one of the DuckDuckGo theme.
\<close>

definition generateColorscheme ::
  "'n config \<Rightarrow> ThemeModes \<Rightarrow> IPywalColors \<Rightarrow> jsobject \<Rightarrow> 'n IColorschemeTemplate
     \<Rightarrow> js_error + IColorscheme" where
  "generateColorscheme cfg mode pywalColors customColors template =
     (let p = generatePalette cfg pywalColors customColors (template_palette template)
      in case generatePaletteHash p of
           Inl e \<Rightarrow> Inl e
         | Inr h \<Rightarrow>
             (let b = generateBrowserTheme cfg p (template_browser template);
                  x = generateExtensionTheme cfg p
              in case generateDuckduckgoTheme cfg p (template_duckduckgo template) of
                   Inl e \<Rightarrow> Inl e
                 | Inr d \<Rightarrow>
                     Inr \<lparr>hash = h, palette = p, browser = b, extension = x, duckduckgo = d,
                          darkreader = generateDarkreaderScheme p mode\<rparr>))"


section \<open>Colorscheme generation on a store\<close>

text \<open>
  The functions of the previous section give the value each generator computes from the
  contents of its arguments. The source computes these values in objects and arrays that
  it allocates and then assigns to, next to the ones of its caller and the constants it
  imports. The definitions below follow the source statement by statement on a world
  that holds all of these: the imported constants, and one store for each kind of
  mutable value (arrays of strings; objects whose properties are colours or
  \<^verbatim>\<open>undefined\<close>; DuckDuckGo themes, whose properties are strings). A reference is a
  position in its store; the caller passes the raw palette and the custom colours by
  reference and gets references back.
\<close>

record 'n world =
  constants :: "'n config"
  arrays :: store
  objects :: "jsobject list"
  themes :: "IDuckDuckGoTheme list"

text \<open>\<^verbatim>\<open>obj[k] = v\<close> on an object of the store.\<close>

definition assign_property :: "nat \<Rightarrow> string \<Rightarrow> string option \<Rightarrow> 'n world \<Rightarrow> 'n world" where
  "assign_property obj k v w =
     w\<lparr>objects := (objects w)[obj := obj_set (objects w ! obj) k v]\<rparr>"

text \<open>
  \<^verbatim>\<open>createObjectFromTemplateData\<close>: the accumulator \<^verbatim>\<open>{}\<close> of \<^verbatim>\<open>reduce\<close> is a new
  object; each step reads \<^verbatim>\<open>values[template[item.target]]\<close> in the world as it is then
  and assigns it to the accumulator.
\<close>

definition createObjectFromTemplateData_store ::
  "ITemplateItem list \<Rightarrow> ('n world \<Rightarrow> 'i option \<Rightarrow> string option) \<Rightarrow> (string \<times> 'i) list
     \<Rightarrow> 'n world \<Rightarrow> nat \<times> 'n world" where
  "createObjectFromTemplateData_store items values template w =
     (let obj = length (objects w);
          w1 = w\<lparr>objects := objects w @ [[]]\<rparr>
      in (obj,
          foldl (\<lambda>w' item.
                   assign_property obj (target item)
                     (values w' (map_of template (target item))) w')
            w1 items))"

text \<open>
  \<^verbatim>\<open>Object.assign(target, source)\<close>: the keys of the source are taken first; then each
  is read from the source and assigned to the target, in the world as it is then.
\<close>

definition Object_assign_store :: "nat \<Rightarrow> nat \<Rightarrow> 'n world \<Rightarrow> 'n world" where
  "Object_assign_store tgt source w =
     fold (\<lambda>k w'. assign_property tgt k (obj_get (objects w' ! source) k) w')
       (Object_keys (objects w ! source)) w"

definition generatePalette_store ::
  "nat \<Rightarrow> nat \<Rightarrow> IPaletteTemplate \<Rightarrow> 'n world \<Rightarrow> nat \<times> 'n world" where
  "generatePalette_store pywalColors customColors template w =
     (let (defaultPalette, w1) =
            createObjectFromTemplateData_store (PALETTE_TEMPLATE_DATA (constants w))
              (\<lambda>w'. array_index (arrays w' ! pywalColors)) template w
      in (defaultPalette, Object_assign_store defaultPalette customColors w1))"

text \<open>
  \<^verbatim>\<open>generatePaletteHash\<close>: \<^verbatim>\<open>Object.keys\<close> returns a new array, \<^verbatim>\<open>sort\<close> sorts it in
  place, and the loop only reads the palette.
\<close>

definition generatePaletteHash_store ::
  "nat \<Rightarrow> 'n world \<Rightarrow> (js_error + string) \<times> 'n world" where
  "generatePaletteHash_store pal w =
     (let colors = length (arrays w);
          w1 = w\<lparr>arrays := arrays w @ [Object_keys (objects w ! pal)]\<rparr>;
          w2 = w1\<lparr>arrays := (arrays w1)[colors := array_sort compareKeys (arrays w1 ! colors)]\<rparr>
      in (hashKeys (objects w2 ! pal) (arrays w2 ! colors) [], w2))"

definition generateBrowserTheme_store ::
  "nat \<Rightarrow> IThemeTemplate \<Rightarrow> 'n world \<Rightarrow> nat \<times> 'n world" where
  "generateBrowserTheme_store pal template w =
     createObjectFromTemplateData_store (BROWSER_TEMPLATE_DATA (constants w))
       (\<lambda>w'. object_index (objects w' ! pal)) template w"

text \<open>
  \<^verbatim>\<open>generateDuckduckgoTheme\<close>: the theme is a new object, the keys of the template a new
  array; each step of the loop reads the palette and assigns to the theme, until one
  throws.
\<close>

fun duckduckgoKeys_store ::
  "nat \<Rightarrow> 'n IDuckDuckGoThemeTemplate \<Rightarrow> nat \<Rightarrow> string list \<Rightarrow> 'n world
     \<Rightarrow> js_error option \<times> 'n world" where
  "duckduckgoKeys_store pal template theme [] w = (None, w)"
| "duckduckgoKeys_store pal template theme (key # keys) w =
     (case map_of template key of
        None \<Rightarrow> (Some TypeError, w)
      | Some item \<Rightarrow>
          (let color = obj_get (objects w ! pal) (colorKey item);
               color1 = (case item_modifier item of
                           None \<Rightarrow> color
                         | Some m \<Rightarrow> Some (changeLuminance (constants w) color m None None))
           in case stripHashSymbol color1 of
                Inl e \<Rightarrow> (Some e, w)
              | Inr stripped \<Rightarrow>
                  duckduckgoKeys_store pal template theme keys
                    (w\<lparr>themes := (themes w)[theme := obj_set (themes w ! theme) key stripped]\<rparr>)))"

definition generateDuckduckgoTheme_store ::
  "nat \<Rightarrow> 'n IDuckDuckGoThemeTemplate \<Rightarrow> 'n world \<Rightarrow> (js_error + nat) \<times> 'n world" where
  "generateDuckduckgoTheme_store pal template w =
     (let theme = length (themes w);
          w1 = w\<lparr>themes := themes w @ [[]]\<rparr>;
          keys = length (arrays w1);
          w2 = w1\<lparr>arrays := arrays w1 @ [Object_keys template]\<rparr>
      in case duckduckgoKeys_store pal template theme (arrays w2 ! keys) w2 of
           (Some e, w3) \<Rightarrow> (Inl e, w3)
         | (None, w3) \<Rightarrow> (Inr theme, w3))"

text \<open>\<^verbatim>\<open>generateExtensionTheme\<close> only reads, and returns a string.\<close>

definition generateExtensionTheme_store :: "nat \<Rightarrow> 'n world \<Rightarrow> string" where
  "generateExtensionTheme_store pal w = generateExtensionTheme (constants w) (objects w ! pal)"

text \<open>\<^verbatim>\<open>generateDarkreaderScheme\<close> reads two properties and returns a new object.\<close>

definition generateDarkreaderScheme_store ::
  "nat \<Rightarrow> ThemeModes \<Rightarrow> 'n world \<Rightarrow> nat \<times> 'n world" where
  "generateDarkreaderScheme_store pal mode w =
     (length (objects w),
      w\<lparr>objects := objects w @ [generateDarkreaderScheme (objects w ! pal) mode]\<rparr>)"

text \<open>
  The object \<^verbatim>\<open>generateColorscheme\<close> returns: two strings and four references.
\<close>

record IColorscheme_refs =
  hash_of :: string
  palette_ref :: nat
  browser_ref :: nat
  extension_of :: string
  duckduckgo_ref :: nat
  darkreader_ref :: nat

definition generateColorscheme_store ::
  "ThemeModes \<Rightarrow> nat \<Rightarrow> nat \<Rightarrow> 'n IColorschemeTemplate \<Rightarrow> 'n world
     \<Rightarrow> (js_error + IColorscheme_refs) \<times> 'n world" where
  "generateColorscheme_store mode pywalColors customColors template w =
     (let (pal, w1) = generatePalette_store pywalColors customColors (template_palette template) w
      in case generatePaletteHash_store pal w1 of
           (Inl e, w2) \<Rightarrow> (Inl e, w2)
         | (Inr h, w2) \<Rightarrow>
             (let (b, w3) = generateBrowserTheme_store pal (template_browser template) w2;
                  x = generateExtensionTheme_store pal w3
              in case generateDuckduckgoTheme_store pal (template_duckduckgo template) w3 of
                   (Inl e, w4) \<Rightarrow> (Inl e, w4)
                 | (Inr d, w4) \<Rightarrow>
                     (let (dr, w5) = generateDarkreaderScheme_store pal mode w4
                      in (Inr \<lparr>hash_of = h, palette_ref = pal, browser_ref = b,
                                extension_of = x, duckduckgo_ref = d, darkreader_ref = dr\<rparr>,
                          w5))))"

text \<open>What a returned colorscheme holds, each reference followed into the store.\<close>

definition contents :: "'n world \<Rightarrow> IColorscheme_refs \<Rightarrow> IColorscheme" where
  "contents w r =
     \<lparr>hash = hash_of r, palette = objects w ! palette_ref r,
      browser = objects w ! browser_ref r, extension = extension_of r,
      duckduckgo = themes w ! duckduckgo_ref r, darkreader = objects w ! darkreader_ref r\<rparr>"

section \<open>Properties of the session\<close>

text \<open>
  C1. The claim: a disconnect whose error message is exactly
  \<^verbatim>\<open>Error: No such native application pywalfox\<close> is classified as
  \<^verbatim>\<open>ManifestNotInstalled\<close>, and that classification reaches the \<^verbatim>\<open>disconnected\<close>
  callback. The handler does assign \<^verbatim>\<open>ManifestNotInstalled\<close> at that label, but the
  \<^verbatim>\<open>switch\<close> has no \<^verbatim>\<open>break\<close>, so the two later assignments run as well: the callback
  receives \<^verbatim>\<open>Unknown\<close>. The theorem evaluates the handler at that input, for every
  state: both timers are cleared, one error line is logged, and the callback is called
  with type \<^verbatim>\<open>Unknown\<close> and the message.
\<close>

theorem onDisconnect_no_such_application:
  "onDisconnect render
     \<lparr>port_error = Some (PortError ''Error: No such native application pywalfox'')\<rparr> s
   = (clearTimeout (connectedCheckTimeout s) (clearTimeout (versionCheckTimeout s) s))
       \<lparr>calls := calls s @
          [Output (''Disconnected from native messaging host: '' @
                     render (Some (PortError ''Error: No such native application pywalfox'')))
             (Some True),
           Disconnected \<lparr>err_type = Unknown,
                          err_message = Some ''Error: No such native application pywalfox''\<rparr>]\<rparr>"
  by (simp add: onDisconnect_def logError_def log_def clearTimeout_def Let_def
      split: option.splits)

text \<open>
  What the handler does in general: with an error object of any text the callback gets
  \<^verbatim>\<open>Unknown\<close>, without one it gets \<^verbatim>\<open>None\<close>.
\<close>

lemma onDisconnect_classification:
  "\<exists>line. calls (onDisconnect render port s) =
     calls s @
       [Output line (Some True),
        Disconnected
          (case port_error port of
             None \<Rightarrow> \<lparr>err_type = None', err_message = None\<rparr>
           | Some e \<Rightarrow> \<lparr>err_type = Unknown, err_message = Some (message e)\<rparr>)]"
  by (simp add: onDisconnect_def logError_def log_def clearTimeout_def Let_def
      split: option.splits)

text \<open>
  C2. Each of the four request methods, called while \<^verbatim>\<open>isConnected\<close> is not
  \<^verbatim>\<open>true\<close> (that is \<^verbatim>\<open>false\<close>, or still \<^verbatim>\<open>undefined\<close>), leaves the object as it
  was and adds exactly one call to the outside: \<^verbatim>\<open>output\<close> with the error flag set. No
  \<^verbatim>\<open>postMessage\<close> call is made, and no field holds the dropped message afterwards.
\<close>

theorem request_not_connected:
  assumes "isConnected s \<noteq> Some True"
  shows "requestVersion nm s =
           s\<lparr>calls := calls s @
              [Output ''Failed to send data to native app. You are not connected'' (Some True)]\<rparr>
       \<and> requestPywalColors nm s =
           s\<lparr>calls := calls s @
              [Output ''Failed to send data to native app. You are not connected'' (Some True)]\<rparr>
       \<and> requestCssEnabled nm tgt enabled s =
           s\<lparr>calls := calls s @
              [Output ''Failed to send data to native app. You are not connected'' (Some True)]\<rparr>
       \<and> requestFontSizeSet nm tgt sz s =
           s\<lparr>calls := calls s @
              [Output ''Failed to send data to native app. You are not connected'' (Some True)]\<rparr>"
  using assms
  by (simp add: requestVersion_def requestPywalColors_def requestCssEnabled_def
      requestFontSizeSet_def sendMessage_def logError_def log_def)

text \<open>
  A request on an object whose \<^verbatim>\<open>isConnected\<close> is \<^verbatim>\<open>false\<close>, with calls already made
  before it.
\<close>

theorem request_not_connected_witness:
  "isConnected \<lparr>isConnected = Some False, versionCheckTimeout = None,
                 connectedCheckTimeout = None, armedTimers = {}, calls = [UpdateNeeded]\<rparr>
     \<noteq> Some True
   \<and> requestVersion
        \<lparr>VERSION = ''debug:version'', PYWAL_COLORS = ''action:colors'',
           CSS_ENABLE = ''css:enable'', CSS_DISABLE = ''css:disable'',
           CSS_FONT_SIZE = ''css:font:size''\<rparr>
        \<lparr>isConnected = Some False, versionCheckTimeout = None,
           connectedCheckTimeout = None, armedTimers = {}, calls = [UpdateNeeded]\<rparr>
      = \<lparr>isConnected = Some False, versionCheckTimeout = None,
           connectedCheckTimeout = None, armedTimers = {},
           calls = [UpdateNeeded,
                    Output ''Failed to send data to native app. You are not connected''
                      (Some True)]\<rparr>
   \<and> calls (requestFontSizeSet
        \<lparr>VERSION = ''debug:version'', PYWAL_COLORS = ''action:colors'',
           CSS_ENABLE = ''css:enable'', CSS_DISABLE = ''css:disable'',
           CSS_FONT_SIZE = ''css:font:size''\<rparr>
        ''content'' 13
        \<lparr>isConnected = Some False, versionCheckTimeout = None,
           connectedCheckTimeout = None, armedTimers = {}, calls = [UpdateNeeded]\<rparr>)
      = [UpdateNeeded,
         Output ''Failed to send data to native app. You are not connected'' (Some True)]"
  using request_not_connected
    [of "\<lparr>isConnected = Some False, versionCheckTimeout = None,
           connectedCheckTimeout = None, armedTimers = {}, calls = [UpdateNeeded]\<rparr>"
        "\<lparr>VERSION = ''debug:version'', PYWAL_COLORS = ''action:colors'',
           CSS_ENABLE = ''css:enable'', CSS_DISABLE = ''css:disable'',
           CSS_FONT_SIZE = ''css:font:size''\<rparr>"
        "''content''" True 13]
  by simp

text \<open>While connected the same methods do reach the port.\<close>

lemma sendMessage_connected:
  "isConnected s = Some True \<Longrightarrow> sendMessage msg s = s\<lparr>calls := calls s @ [PostMessage msg]\<rparr>"
  by (simp add: sendMessage_def)

text \<open>
  C3, as claimed: every successful palette response with a non-null payload reaches the
  success callback, unchanged when it has a \<^verbatim>\<open>wallpaper\<close> field and wrapped otherwise.
  The handler tests the payload with \<^verbatim>\<open>!pywalData\<close>, so a payload that is present and
  not null but falsy is treated as missing. At \<^verbatim>\<open>{success: true, data: ""}\<close> the claim
  promises a call with \<^verbatim>\<open>{colors: "", wallpaper: null}\<close>; the handler logs the anomaly,
  calls nothing else and returns.
\<close>

theorem onPywalColorsResponse_counterexample:
  "data \<lparr>action = ''action:colors'', success = Some True, error = None,
          data = Some (JStr '''')\<rparr> = Some (JStr '''')
   \<and> JStr '''' \<noteq> JNull
   \<and> \<not> object_owns (JStr '''') ''wallpaper''
   \<and> onPywalColorsResponse
        \<lparr>action = ''action:colors'', success = Some True, error = None,
           data = Some (JStr '''')\<rparr>
        \<lparr>isConnected = Some True, versionCheckTimeout = None,
           connectedCheckTimeout = None, armedTimers = {}, calls = []\<rparr>
      = Inr \<lparr>isConnected = Some True, versionCheckTimeout = None,
             connectedCheckTimeout = None, armedTimers = {},
             calls = [Output ''Pywal data was read successfully but contained null''
                        (Some True)]\<rparr>
   \<and> PywalColorsFetchSuccess (JObj [(''colors'', JStr ''''), (''wallpaper'', JNull)])
       \<notin> set [Output ''Pywal data was read successfully but contained null'' (Some True)]"
  by (simp add: onPywalColorsResponse_def getData_def logError_def log_def)

text \<open>
  C3, amended. For every palette response and every state, the handler returns, changes
  nothing but the list of calls, and appends:
  \<^item> when \<^verbatim>\<open>success\<close> is not \<^verbatim>\<open>true\<close>: one call of \<^verbatim>\<open>pywalColorsFetchFailed\<close> with
    the carried \<^verbatim>\<open>error\<close>;
  \<^item> when \<^verbatim>\<open>success\<close> is \<^verbatim>\<open>true\<close> and the payload is truthy, has no key
    \<^verbatim>\<open>hasOwnProperty\<close> of its own and has a \<^verbatim>\<open>wallpaper\<close> field: one call of
    \<^verbatim>\<open>pywalColorsFetchSuccess\<close> with the payload itself;
  \<^item> when it is truthy, has no key \<^verbatim>\<open>hasOwnProperty\<close> of its own and no \<^verbatim>\<open>wallpaper\<close>
    field: one call of \<^verbatim>\<open>pywalColorsFetchSuccess\<close> with exactly
    \<^verbatim>\<open>{colors: payload, wallpaper: null}\<close>;
  \<^item> when it is present but falsy (\<^verbatim>\<open>null\<close>, \<^verbatim>\<open>false\<close>, \<^verbatim>\<open>0\<close>, the empty string):
    one error line, and no callback;
  \<^item> when the message has no \<^verbatim>\<open>data\<close> field: two error lines (one from \<^verbatim>\<open>getData\<close>,
    one from the handler), and no callback.

  Nothing is said here of a truthy payload with a key \<^verbatim>\<open>hasOwnProperty\<close> of its own.
\<close>

theorem onPywalColorsResponse_cases:
  "(success msg \<noteq> Some True \<longrightarrow>
      onPywalColorsResponse msg s =
        Inr (s\<lparr>calls := calls s @ [PywalColorsFetchFailed (error msg)]\<rparr>)) \<and>
   (success msg = Some True \<and> data msg = Some d \<and> truthy d
      \<and> \<not> object_owns d ''hasOwnProperty'' \<and> object_owns d ''wallpaper'' \<longrightarrow>
      onPywalColorsResponse msg s =
        Inr (s\<lparr>calls := calls s @ [PywalColorsFetchSuccess d]\<rparr>)) \<and>
   (success msg = Some True \<and> data msg = Some d \<and> truthy d
      \<and> \<not> object_owns d ''hasOwnProperty'' \<and> \<not> object_owns d ''wallpaper'' \<longrightarrow>
      onPywalColorsResponse msg s =
        Inr (s\<lparr>calls := calls s @
               [PywalColorsFetchSuccess (JObj [(''colors'', d), (''wallpaper'', JNull)])]\<rparr>)) \<and>
   (success msg = Some True \<and> data msg = Some d \<and> \<not> truthy d \<longrightarrow>
      onPywalColorsResponse msg s =
        Inr (s\<lparr>calls := calls s @
               [Output ''Pywal data was read successfully but contained null'' (Some True)]\<rparr>)) \<and>
   (success msg = Some True \<and> data msg = None \<longrightarrow>
      onPywalColorsResponse msg s =
        Inr (s\<lparr>calls := calls s @
               [Output
                  ''Recieved invalid message from native app. The 'data' field is undefined.''
                  (Some True),
                Output ''Pywal data was read successfully but contained null'' (Some True)]\<rparr>))"
  by (cases d) (auto simp: onPywalColorsResponse_def getData_def logError_def log_def)

text \<open>
  The scenario of the specification, a legacy payload (an array of colours, no
  \<^verbatim>\<open>wallpaper\<close> key); a payload of the new shape; and a failed fetch.
\<close>

theorem onPywalColorsResponse_cases_witness:
  "(success \<lparr>action = ''action:colors'', success = Some True, error = None,
             data = Some (JArr [JStr ''#1d2021'', JStr ''#cc241d''])\<rparr> = Some True
    \<and> truthy (JArr [JStr ''#1d2021'', JStr ''#cc241d''])
    \<and> \<not> object_owns (JArr [JStr ''#1d2021'', JStr ''#cc241d'']) ''hasOwnProperty''
    \<and> \<not> object_owns (JArr [JStr ''#1d2021'', JStr ''#cc241d'']) ''wallpaper''
    \<and> onPywalColorsResponse
          \<lparr>action = ''action:colors'', success = Some True, error = None,
             data = Some (JArr [JStr ''#1d2021'', JStr ''#cc241d''])\<rparr>
          \<lparr>isConnected = Some True, versionCheckTimeout = None,
             connectedCheckTimeout = None, armedTimers = {}, calls = []\<rparr>
        = Inr \<lparr>isConnected = Some True, versionCheckTimeout = None,
               connectedCheckTimeout = None, armedTimers = {},
               calls = [PywalColorsFetchSuccess
                          (JObj [(''colors'', JArr [JStr ''#1d2021'', JStr ''#cc241d'']),
                                 (''wallpaper'', JNull)])]\<rparr>)
   \<and> (truthy (JObj [(''colors'', JArr [JStr ''#1d2021'']), (''wallpaper'', JStr ''a.png'')])
    \<and> \<not> object_owns
          (JObj [(''colors'', JArr [JStr ''#1d2021'']), (''wallpaper'', JStr ''a.png'')])
          ''hasOwnProperty''
    \<and> object_owns
          (JObj [(''colors'', JArr [JStr ''#1d2021'']), (''wallpaper'', JStr ''a.png'')])
          ''wallpaper''
    \<and> onPywalColorsResponse
          \<lparr>action = ''action:colors'', success = Some True, error = None,
             data = Some (JObj [(''colors'', JArr [JStr ''#1d2021'']),
                                (''wallpaper'', JStr ''a.png'')])\<rparr>
          \<lparr>isConnected = Some True, versionCheckTimeout = None,
             connectedCheckTimeout = None, armedTimers = {}, calls = []\<rparr>
        = Inr \<lparr>isConnected = Some True, versionCheckTimeout = None,
               connectedCheckTimeout = None, armedTimers = {},
               calls = [PywalColorsFetchSuccess
                          (JObj [(''colors'', JArr [JStr ''#1d2021'']),
                                 (''wallpaper'', JStr ''a.png'')])]\<rparr>)
   \<and> (success \<lparr>action = ''action:colors'', success = Some False,
               error = Some ''no colors'', data = None\<rparr> \<noteq> Some True
    \<and> onPywalColorsResponse
          \<lparr>action = ''action:colors'', success = Some False,
             error = Some ''no colors'', data = None\<rparr>
          \<lparr>isConnected = Some True, versionCheckTimeout = None,
             connectedCheckTimeout = None, armedTimers = {}, calls = []\<rparr>
        = Inr \<lparr>isConnected = Some True, versionCheckTimeout = None,
               connectedCheckTimeout = None, armedTimers = {},
               calls = [PywalColorsFetchFailed (Some ''no colors'')]\<rparr>)"
  using
    onPywalColorsResponse_cases
      [of "\<lparr>action = ''action:colors'', success = Some True, error = None,
             data = Some (JArr [JStr ''#1d2021'', JStr ''#cc241d''])\<rparr>"
          "\<lparr>isConnected = Some True, versionCheckTimeout = None,
             connectedCheckTimeout = None, armedTimers = {}, calls = []\<rparr>"
          "JArr [JStr ''#1d2021'', JStr ''#cc241d'']"]
    onPywalColorsResponse_cases
      [of "\<lparr>action = ''action:colors'', success = Some True, error = None,
             data = Some (JObj [(''colors'', JArr [JStr ''#1d2021'']),
                                (''wallpaper'', JStr ''a.png'')])\<rparr>"
          "\<lparr>isConnected = Some True, versionCheckTimeout = None,
             connectedCheckTimeout = None, armedTimers = {}, calls = []\<rparr>"
          "JObj [(''colors'', JArr [JStr ''#1d2021'']), (''wallpaper'', JStr ''a.png'')]"]
    onPywalColorsResponse_cases
      [of "\<lparr>action = ''action:colors'', success = Some False,
             error = Some ''no colors'', data = None\<rparr>"
          "\<lparr>isConnected = Some True, versionCheckTimeout = None,
             connectedCheckTimeout = None, armedTimers = {}, calls = []\<rparr>"
          JNull]
  by simp

text \<open>
  A truthy payload with a key \<^verbatim>\<open>hasOwnProperty\<close> of its own: the handler is left by a
  \<^verbatim>\<open>TypeError\<close>, having made no call, whether or not the payload has a \<^verbatim>\<open>wallpaper\<close>
  field.
\<close>

lemma onPywalColorsResponse_throws:
  "success msg = Some True \<Longrightarrow> data msg = Some (JObj kvs)
   \<Longrightarrow> ''hasOwnProperty'' \<in> set (map fst kvs)
   \<Longrightarrow> onPywalColorsResponse msg s = Inl (TypeError, s)"
  by (simp add: onPywalColorsResponse_def getData_def)

text \<open>
  C4, as claimed: whenever a data payload is present the \<^verbatim>\<open>version\<close> callback fires with
  it and \<^verbatim>\<open>updateNeeded\<close> is not called. The handler tests the payload with
  \<^verbatim>\<open>if (version)\<close>, so a payload that is present but falsy takes the other branch. At
  \<^verbatim>\<open>{action: version, data: ""}\<close> the payload is present, \<^verbatim>\<open>version\<close> is not called
  and \<^verbatim>\<open>updateNeeded\<close> is.
\<close>

theorem onVersionResponse_counterexample:
  "data \<lparr>action = ''debug:version'', success = Some True, error = None,
          data = Some (JStr '''')\<rparr> = Some (JStr '''')
   \<and> Version (JStr '''')
       \<notin> set (calls (onVersionResponse
            \<lparr>action = ''debug:version'', success = Some True, error = None,
               data = Some (JStr '''')\<rparr>
            \<lparr>isConnected = Some True, versionCheckTimeout = Some 1,
               connectedCheckTimeout = None, armedTimers = {1}, calls = []\<rparr>))
   \<and> calls (onVersionResponse
        \<lparr>action = ''debug:version'', success = Some True, error = None,
           data = Some (JStr '''')\<rparr>
        \<lparr>isConnected = Some True, versionCheckTimeout = Some 1,
           connectedCheckTimeout = None, armedTimers = {1}, calls = []\<rparr>)
      = [UpdateNeeded]"
  by (simp add: onVersionResponse_def getData_def clearTimeout_def)

text \<open>
  C4, amended. For every version response and every state:
  \<^item> when the payload is present and truthy, the handler calls \<^verbatim>\<open>version\<close> with exactly
    that value, and makes no other call;
  \<^item> when the payload is present but falsy, it calls \<^verbatim>\<open>updateNeeded\<close> and makes no other
    call;
  \<^item> when the message has no \<^verbatim>\<open>data\<close> field, it logs one error line and then calls
    \<^verbatim>\<open>updateNeeded\<close>;
  \<^item> in every case the version-check timer is cleared, and that is the only other change
    to the state.
\<close>

theorem onVersionResponse_cases:
  "(data msg = Some v \<and> truthy v \<longrightarrow>
      onVersionResponse msg s =
        clearTimeout (versionCheckTimeout s) (s\<lparr>calls := calls s @ [Version v]\<rparr>)) \<and>
   (data msg = Some v \<and> \<not> truthy v \<longrightarrow>
      onVersionResponse msg s =
        clearTimeout (versionCheckTimeout s) (s\<lparr>calls := calls s @ [UpdateNeeded]\<rparr>)) \<and>
   (data msg = None \<longrightarrow>
      onVersionResponse msg s =
        clearTimeout (versionCheckTimeout s)
          (s\<lparr>calls := calls s @
             [Output ''Recieved invalid message from native app. The 'data' field is undefined.''
                (Some True),
              UpdateNeeded]\<rparr>)) \<and>
   (\<forall>t. versionCheckTimeout s = Some t \<longrightarrow> t \<notin> armedTimers (onVersionResponse msg s))"
  by (cases "data msg")
     (auto simp: onVersionResponse_def getData_def logError_def log_def clearTimeout_def Let_def
        split: option.splits)

text \<open>
  The two scenarios of the specification: \<^verbatim>\<open>{action: version, data: "2.0"}\<close> with the
  timer armed, and \<^verbatim>\<open>{action: version, success: true}\<close> without data.
\<close>

theorem onVersionResponse_cases_witness:
  "(data \<lparr>action = ''debug:version'', success = None, error = None,
           data = Some (JStr ''2.0'')\<rparr> = Some (JStr ''2.0'')
    \<and> truthy (JStr ''2.0'')
    \<and> onVersionResponse
          \<lparr>action = ''debug:version'', success = None, error = None,
             data = Some (JStr ''2.0'')\<rparr>
          \<lparr>isConnected = Some True, versionCheckTimeout = Some 1,
             connectedCheckTimeout = None, armedTimers = {1}, calls = []\<rparr>
        = \<lparr>isConnected = Some True, versionCheckTimeout = Some 1,
             connectedCheckTimeout = None, armedTimers = {},
             calls = [Version (JStr ''2.0'')]\<rparr>)
   \<and> (data \<lparr>action = ''debug:version'', success = Some True, error = None,
              data = None\<rparr> = None
    \<and> calls (onVersionResponse
          \<lparr>action = ''debug:version'', success = Some True, error = None, data = None\<rparr>
          \<lparr>isConnected = Some True, versionCheckTimeout = Some 1,
             connectedCheckTimeout = None, armedTimers = {1}, calls = []\<rparr>)
        = [Output ''Recieved invalid message from native app. The 'data' field is undefined.''
             (Some True),
           UpdateNeeded])"
  using
    onVersionResponse_cases
      [of "\<lparr>action = ''debug:version'', success = None, error = None,
             data = Some (JStr ''2.0'')\<rparr>"
          "JStr ''2.0''"
          "\<lparr>isConnected = Some True, versionCheckTimeout = Some 1,
             connectedCheckTimeout = None, armedTimers = {1}, calls = []\<rparr>"]
    onVersionResponse_cases
      [of "\<lparr>action = ''debug:version'', success = Some True, error = None, data = None\<rparr>"
          JNull
          "\<lparr>isConnected = Some True, versionCheckTimeout = Some 1,
             connectedCheckTimeout = None, armedTimers = {1}, calls = []\<rparr>"]
  by (simp add: clearTimeout_def)

section \<open>Properties of the colorscheme generators\<close>

subsection \<open>The darkreader pair\<close>

text \<open>
  C5. For every palette, \<^verbatim>\<open>generateDarkreaderScheme\<close> returns exactly the object with the
  two keys \<^verbatim>\<open>darkSchemeTextColor\<close> and \<^verbatim>\<open>darkSchemeBackgroundColor\<close> when the mode is
  \<^verbatim>\<open>Dark\<close>, and exactly the object with the two keys \<^verbatim>\<open>lightSchemeTextColor\<close> and
  \<^verbatim>\<open>lightSchemeBackgroundColor\<close> for each of the other modes; the values are the
  palette's \<^verbatim>\<open>text\<close> and \<^verbatim>\<open>background\<close>. No result has keys of both shapes.
\<close>

theorem generateDarkreaderScheme_shape:
  "generateDarkreaderScheme p Dark =
      [(''darkSchemeTextColor'', obj_get p ''text''),
       (''darkSchemeBackgroundColor'', obj_get p ''background'')]
   \<and> generateDarkreaderScheme p Light =
      [(''lightSchemeTextColor'', obj_get p ''text''),
       (''lightSchemeBackgroundColor'', obj_get p ''background'')]
   \<and> generateDarkreaderScheme p Auto =
      [(''lightSchemeTextColor'', obj_get p ''text''),
       (''lightSchemeBackgroundColor'', obj_get p ''background'')]"
  by (simp add: generateDarkreaderScheme_def)

subsection \<open>Custom colours override the template\<close>

lemma map_of_Object_assign:
  "map_of (Object_assign t s) = map_of t ++ map_of (rev s)"
  unfolding Object_assign_def
proof (induction s arbitrary: t)
  case Nil
  show ?case by simp
next
  case (Cons a s)
  obtain k v where a: "a = (k, v)" by (cases a)
  have "map_of (fold (\<lambda>(k, v) obj. obj_set obj k v) s (obj_set t k v))
          = map_of (obj_set t k v) ++ map_of (rev s)"
    by (rule Cons.IH)
  then show ?case
    by (simp add: a obj_set_def update_conv')
qed

lemma map_of_rev_distinct:
  "distinct (map fst s) \<Longrightarrow> map_of (rev s) = map_of s"
  by (rule map_of_inject_set [THEN iffD2]) (simp_all add: rev_map [symmetric])

text \<open>
  C6. For every raw palette, template and custom-colours object (an object has no key
  twice), and every role \<open>r\<close> that the custom colours hold with value \<open>v\<close>, the palette
  that \<^verbatim>\<open>generatePalette\<close> returns holds \<open>r\<close> with the value \<open>v\<close>, whatever the template
  derives for it.
\<close>

theorem generatePalette_custom_wins:
  assumes "distinct (map fst customColors)" and "map_of customColors r = Some v"
  shows "map_of (generatePalette cfg pywalColors customColors template) r = Some v
       \<and> obj_get (generatePalette cfg pywalColors customColors template) r = v"
  using assms
  by (simp add: generatePalette_def map_of_Object_assign map_of_rev_distinct obj_get_def
      map_add_Some_iff)

theorem generatePalette_custom_wins_witness:
  "distinct (map fst [(''text'', Some ''#ffffff'')])
   \<and> map_of [(''text'', Some ''#ffffff'')] ''text'' = Some (Some ''#ffffff'')
   \<and> array_index [''#1d2021'', ''#cc241d''] (map_of [(''background'', 0), (''text'', 1)] ''text'')
       = Some ''#cc241d''
   \<and> obj_get
        (generatePalette
           \<lparr>PALETTE_TEMPLATE_DATA =
              [\<lparr>target = ''background'', cssVariable = Some ''--background''\<rparr>,
               \<lparr>target = ''text'', cssVariable = Some ''--text''\<rparr>],
            BROWSER_TEMPLATE_DATA = [], EXTENSION_THEME_SELCTOR = '':root'',
            EXTENDED_PYWAL_COLORS = [],
            changeLuminance = (\<lambda>c (m::int) lo hi. interpolate c)\<rparr>
           [''#1d2021'', ''#cc241d'']
           [(''text'', Some ''#ffffff'')]
           [(''background'', 0), (''text'', 1)])
        ''text''
       = Some ''#ffffff''"
  using generatePalette_custom_wins
    [of "[(''text'', Some ''#ffffff'')]" "''text''" "Some ''#ffffff''"
        "\<lparr>PALETTE_TEMPLATE_DATA =
              [\<lparr>target = ''background'', cssVariable = Some ''--background''\<rparr>,
               \<lparr>target = ''text'', cssVariable = Some ''--text''\<rparr>],
            BROWSER_TEMPLATE_DATA = [], EXTENSION_THEME_SELCTOR = '':root'',
            EXTENDED_PYWAL_COLORS = [],
            changeLuminance = (\<lambda>c (m::int) lo hi. interpolate c)\<rparr>"
        "[''#1d2021'', ''#cc241d'']" "[(''background'', 0), (''text'', 1)]"]
  by (simp add: array_index_def array_get_def)

subsection \<open>The palette hash\<close>

text \<open>
  The comparator makes the insertion an ordered insertion, so the sort of the model is
  the sort of the library; with that, the sorted keys are the one ascending list of the
  keys, which is what any engine's algorithm returns on distinct keys.
\<close>

lemma insert_by_compareKeys: "insert_by compareKeys x ys = insort x ys"
  by (induction ys) (auto simp: compareKeys_def)

lemma array_sort_compareKeys: "array_sort compareKeys xs = sort xs"
  by (induction xs) (simp_all add: array_sort_def insert_by_compareKeys)

lemma array_sort_compareKeys_unique:
  "mset ys = mset xs \<Longrightarrow> sorted ys \<Longrightarrow> array_sort compareKeys xs = ys"
  by (simp add: array_sort_compareKeys properties_for_sort)

lemma sort_mset_cong: "mset xs = mset ys \<Longrightarrow> sort xs = sort (ys :: string list)"
  by (metis properties_for_sort sorted_sort mset_sort)

lemma hashKeys_cong:
  "(\<And>k. k \<in> set ks \<Longrightarrow> stripHashSymbol (obj_get p k) = stripHashSymbol (obj_get q k))
   \<Longrightarrow> hashKeys p ks acc = hashKeys q ks acc"
  by (induction ks arbitrary: acc) (auto split: sum.splits)

lemma hashKeys_defined:
  "(\<And>k. k \<in> set ks \<Longrightarrow> obj_get p k = Some (c k))
   \<Longrightarrow> hashKeys p ks acc = Inr (acc @ concat (map (\<lambda>k. drop 1 (c k)) ks))"
  by (induction ks arbitrary: acc) (simp_all add: stripHashSymbol_def)

lemma stripHashSymbol_map_option:
  "stripHashSymbol a = stripHashSymbol b \<longleftrightarrow> map_option (drop 1) a = map_option (drop 1) b"
  by (cases a; cases b) (simp_all add: stripHashSymbol_def)

text \<open>
  C7. Two palette objects with the same bindings of roles to colours, in any key order
  (an object has no key twice), have the same hash: \<^verbatim>\<open>generatePaletteHash\<close> returns the
  same string for both, or throws for both.
\<close>

theorem generatePaletteHash_key_order:
  assumes "distinct (map fst p)" and "mset p = mset q"
  shows "generatePaletteHash p = generatePaletteHash q"
proof -
  have keys: "mset (map fst p) = mset (map fst q)"
    using assms(2) by (metis mset_map)
  have "distinct (map fst q)"
    using assms(1) keys by (metis mset_eq_imp_distinct_iff)
  moreover have "set p = set q"
    using assms(2) by (rule mset_eq_setD)
  ultimately have "map_of p = map_of q"
    using assms(1) by (simp add: map_of_inject_set)
  then have get: "obj_get p = obj_get q"
    by (simp add: obj_get_def fun_eq_iff)
  have "sort (map fst p) = sort (map fst q)"
    using keys by (rule sort_mset_cong)
  moreover have "hashKeys p ks [] = hashKeys q ks []" for ks
    by (rule hashKeys_cong) (simp add: get)
  ultimately show ?thesis
    by (simp add: generatePaletteHash_def array_sort_compareKeys Object_keys_def)
qed

theorem generatePaletteHash_key_order_witness:
  "distinct (map fst [(''text'', Some ''#ffffff''), (''background'', Some ''#1d2021'')])
   \<and> mset [(''text'', Some ''#ffffff''), (''background'', Some ''#1d2021'')]
       = mset [(''background'', Some ''#1d2021''), (''text'', Some ''#ffffff'')]
   \<and> generatePaletteHash [(''text'', Some ''#ffffff''), (''background'', Some ''#1d2021'')]
       = generatePaletteHash [(''background'', Some ''#1d2021''), (''text'', Some ''#ffffff'')]
   \<and> generatePaletteHash [(''background'', Some ''#1d2021''), (''text'', Some ''#ffffff'')]
       = Inr ''1d2021ffffff''"
  using generatePaletteHash_key_order
    [of "[(''text'', Some ''#ffffff''), (''background'', Some ''#1d2021'')]"
        "[(''background'', Some ''#1d2021''), (''text'', Some ''#ffffff'')]"]
  by (simp add: generatePaletteHash_def array_sort_def compareKeys_def Object_keys_def
      obj_get_def stripHashSymbol_def)

text \<open>
  C10. \<^verbatim>\<open>generatePaletteHash\<close> drops the first character of every colour value, whatever
  that character is: when every key holds a string, the hash is the concatenation, over
  the keys in ascending order, of each value without its first character. So two
  palettes with the same keys whose values agree key by key from the second character
  on have the same hash.
\<close>

theorem generatePaletteHash_drops_first_character:
  "((\<forall>k \<in> set (map fst p). obj_get p k = Some (c k)) \<longrightarrow>
      generatePaletteHash p = Inr (concat (map (\<lambda>k. drop 1 (c k)) (sort (map fst p)))))
   \<and> (mset (map fst p) = mset (map fst q) \<and>
       (\<forall>k \<in> set (map fst p).
          map_option (drop 1) (obj_get p k) = map_option (drop 1) (obj_get q k)) \<longrightarrow>
      generatePaletteHash p = generatePaletteHash q)"
proof (intro conjI impI)
  assume "\<forall>k \<in> set (map fst p). obj_get p k = Some (c k)"
  then have "hashKeys p (sort (map fst p)) [] =
      Inr ([] @ concat (map (\<lambda>k. drop 1 (c k)) (sort (map fst p))))"
    by (intro hashKeys_defined) auto
  then show "generatePaletteHash p = Inr (concat (map (\<lambda>k. drop 1 (c k)) (sort (map fst p))))"
    by (simp add: generatePaletteHash_def array_sort_compareKeys Object_keys_def)
next
  assume h: "mset (map fst p) = mset (map fst q) \<and>
       (\<forall>k \<in> set (map fst p).
          map_option (drop 1) (obj_get p k) = map_option (drop 1) (obj_get q k))"
  then have "sort (map fst p) = sort (map fst q)"
    by (intro sort_mset_cong) simp
  moreover have "hashKeys p (sort (map fst p)) [] = hashKeys q (sort (map fst p)) []"
    using h by (intro hashKeys_cong) (auto simp: stripHashSymbol_map_option)
  ultimately show "generatePaletteHash p = generatePaletteHash q"
    by (simp add: generatePaletteHash_def array_sort_compareKeys Object_keys_def)
qed

text \<open>
  A custom colour written as \<^verbatim>\<open>rgb(1,2,3)\<close> loses its \<^verbatim>\<open>r\<close>, and hashes like
  \<^verbatim>\<open>#gb(1,2,3)\<close>.
\<close>

theorem generatePaletteHash_drops_first_character_witness:
  "obj_get [(''text'', Some ''rgb(1,2,3)'')] ''text'' = Some ''rgb(1,2,3)''
   \<and> generatePaletteHash [(''text'', Some ''rgb(1,2,3)'')] = Inr ''gb(1,2,3)''
   \<and> mset (map fst [(''text'', Some ''rgb(1,2,3)'')])
       = mset (map fst [(''text'', Some ''#gb(1,2,3)'')])
   \<and> map_option (drop 1) (obj_get [(''text'', Some ''rgb(1,2,3)'')] ''text'')
       = map_option (drop 1) (obj_get [(''text'', Some ''#gb(1,2,3)'')] ''text'')
   \<and> generatePaletteHash [(''text'', Some ''rgb(1,2,3)'')]
       = generatePaletteHash [(''text'', Some ''#gb(1,2,3)'')]"
  using generatePaletteHash_drops_first_character
    [of "[(''text'', Some ''rgb(1,2,3)'')]" "\<lambda>k. ''rgb(1,2,3)''"
        "[(''text'', Some ''#gb(1,2,3)'')]"]
  by (auto simp: obj_get_def)

subsection \<open>Extending the raw palette\<close>














subsection \<open>The colorscheme and the world around it\<close>

text \<open>
  What each generator does to the world: it leaves the world as it found it, but for the
  objects and arrays it appends, and what it appends holds the value that the function
  of the contents gives. The values it reads during a loop are those of cells that
  existed before the call, which the loop does not assign to.
\<close>

lemma assign_property_new:
  "assign_property (length (objects w)) k v (w\<lparr>objects := objects w @ [acc]\<rparr>)
     = w\<lparr>objects := objects w @ [obj_set acc k v]\<rparr>"
  by (simp add: assign_property_def)

lemma createObject_foldl:
  assumes "\<And>acc. values (w\<lparr>objects := objects w @ [acc]\<rparr>) = g"
  shows "foldl (\<lambda>w' item.
                   assign_property (length (objects w)) (target item)
                     (values w' (map_of template (target item))) w')
            (w\<lparr>objects := objects w @ [acc]\<rparr>) items
         = w\<lparr>objects := objects w @
               [foldl (\<lambda>obj item. obj_set obj (target item) (g (map_of template (target item))))
                  acc items]\<rparr>"
proof (induction items arbitrary: acc)
  case Nil
  show ?case by simp
next
  case (Cons item items)
  show ?case
    by (simp add: assign_property_new assms Cons.IH)
qed

lemma createObjectFromTemplateData_store_eq:
  assumes "\<And>acc. values (w\<lparr>objects := objects w @ [acc]\<rparr>) = g"
  shows "createObjectFromTemplateData_store items values template w
         = (length (objects w),
            w\<lparr>objects := objects w @ [createObjectFromTemplateData items g template]\<rparr>)"
proof -
  have "foldl (\<lambda>w' item.
                   assign_property (length (objects w)) (target item)
                     (values w' (map_of template (target item))) w')
            (w\<lparr>objects := objects w @ [[]]\<rparr>) items
         = w\<lparr>objects := objects w @
               [foldl (\<lambda>obj item. obj_set obj (target item) (g (map_of template (target item))))
                  [] items]\<rparr>"
    using assms by (rule createObject_foldl)
  then show ?thesis
    by (simp add: createObjectFromTemplateData_store_def createObjectFromTemplateData_def Let_def)
qed

lemma Object_assign_fold_keys:
  assumes "source < length (objects w)"
  shows "fold (\<lambda>k w'. assign_property (length (objects w)) k (obj_get (objects w' ! source) k) w')
           ks (w\<lparr>objects := objects w @ [acc]\<rparr>)
         = w\<lparr>objects := objects w @
               [fold (\<lambda>k obj. obj_set obj k (obj_get (objects w ! source) k)) ks acc]\<rparr>"
proof (induction ks arbitrary: acc)
  case Nil
  show ?case by simp
next
  case (Cons k ks)
  show ?case
    using assms by (simp add: assign_property_new nth_append Cons.IH)
qed

lemma fold_keys_pairs:
  assumes "distinct (map fst s)"
  shows "fold (\<lambda>k obj. obj_set obj k (obj_get s k)) (map fst s) acc
         = fold (\<lambda>(k, v) obj. obj_set obj k v) s acc"
proof -
  have "fold (\<lambda>k obj. obj_set obj k (obj_get s k)) (map fst s) acc
          = fold ((\<lambda>k obj. obj_set obj k (obj_get s k)) \<circ> fst) s acc"
    by (simp add: fold_map)
  also have "\<dots> = fold (\<lambda>(k, v) obj. obj_set obj k v) s acc"
  proof (rule fold_cong)
    fix x assume "x \<in> set s"
    then have "map_of s (fst x) = Some (snd x)"
      using assms by simp
    then show "((\<lambda>k obj. obj_set obj k (obj_get s k)) \<circ> fst) x
                 = (\<lambda>(k, v) obj. obj_set obj k v) x"
      by (cases x) (simp add: obj_get_def)
  qed simp_all
  finally show ?thesis .
qed

lemma Object_assign_store_new:
  assumes "source < length (objects w)" and "distinct (map fst (objects w ! source))"
  shows "Object_assign_store (length (objects w)) source (w\<lparr>objects := objects w @ [acc]\<rparr>)
         = w\<lparr>objects := objects w @ [Object_assign acc (objects w ! source)]\<rparr>"
  using assms
  by (simp add: Object_assign_store_def Object_assign_def Object_keys_def nth_append
      Object_assign_fold_keys fold_keys_pairs)

lemma generatePalette_store_eq:
  assumes "pywalColors < length (arrays w)" and "customColors < length (objects w)"
    and "distinct (map fst (objects w ! customColors))"
  shows "generatePalette_store pywalColors customColors template w
         = (length (objects w),
            w\<lparr>objects := objects w @
                 [generatePalette (constants w) (arrays w ! pywalColors)
                    (objects w ! customColors) template]\<rparr>)"
proof -
  have "createObjectFromTemplateData_store (PALETTE_TEMPLATE_DATA (constants w))
              (\<lambda>w'. array_index (arrays w' ! pywalColors)) template w
        = (length (objects w),
            w\<lparr>objects := objects w @
              [createObjectFromTemplateData (PALETTE_TEMPLATE_DATA (constants w))
                 (array_index (arrays w ! pywalColors)) template]\<rparr>)"
    by (rule createObjectFromTemplateData_store_eq) simp
  then show ?thesis
    using assms(2,3)
    by (simp add: generatePalette_store_def generatePalette_def Let_def Object_assign_store_new)
qed

lemma generatePaletteHash_store_eq:
  "generatePaletteHash_store pal w
   = (generatePaletteHash (objects w ! pal),
      w\<lparr>arrays := arrays w @ [array_sort compareKeys (Object_keys (objects w ! pal))]\<rparr>)"
  by (simp add: generatePaletteHash_store_def generatePaletteHash_def Let_def)

lemma generateBrowserTheme_store_eq:
  assumes "pal < length (objects w)"
  shows "generateBrowserTheme_store pal template w
         = (length (objects w),
            w\<lparr>objects := objects w @
                 [generateBrowserTheme (constants w) (objects w ! pal) template]\<rparr>)"
proof -
  have "createObjectFromTemplateData_store (BROWSER_TEMPLATE_DATA (constants w))
          (\<lambda>w'. object_index (objects w' ! pal)) template w
        = (length (objects w),
            w\<lparr>objects := objects w @
              [createObjectFromTemplateData (BROWSER_TEMPLATE_DATA (constants w))
                 (object_index (objects w ! pal)) template]\<rparr>)"
    using assms by (intro createObjectFromTemplateData_store_eq) (simp add: nth_append)
  then show ?thesis
    by (simp add: generateBrowserTheme_store_def generateBrowserTheme_def)
qed

lemma duckduckgoKeys_store_eq:
  assumes "theme < length (themes w)"
  shows "\<exists>X. duckduckgoKeys_store pal template theme keys w =
        (case duckduckgoKeys (changeLuminance (constants w)) (objects w ! pal) template keys
                (themes w ! theme) of
           Inl e \<Rightarrow> (Some e, w\<lparr>themes := (themes w)[theme := X]\<rparr>)
         | Inr d \<Rightarrow> (None, w\<lparr>themes := (themes w)[theme := d]\<rparr>))"
  using assms
proof (induction keys arbitrary: w)
  case Nil
  show ?case by simp
next
  case (Cons key keys)
  show ?case
  proof (cases "map_of template key")
    case None
    then show ?thesis
      by (intro exI [of _ "themes w ! theme"]) simp
  next
    case (Some item)
    let ?color1 = "case item_modifier item of
                     None \<Rightarrow> obj_get (objects w ! pal) (colorKey item)
                   | Some m \<Rightarrow> Some (changeLuminance (constants w)
                                       (obj_get (objects w ! pal) (colorKey item)) m None None)"
    show ?thesis
    proof (cases "stripHashSymbol ?color1")
      case (Inl e)
      then show ?thesis
        using Some by (intro exI [of _ "themes w ! theme"]) (simp add: Let_def)
    next
      case (Inr stripped)
      let ?w2 = "w\<lparr>themes := (themes w)[theme := obj_set (themes w ! theme) key stripped]\<rparr>"
      have "theme < length (themes ?w2)"
        using Cons.prems by simp
      from Cons.IH [OF this] obtain X where
        "duckduckgoKeys_store pal template theme keys ?w2 =
          (case duckduckgoKeys (changeLuminance (constants ?w2)) (objects ?w2 ! pal) template keys
                  (themes ?w2 ! theme) of
             Inl e \<Rightarrow> (Some e, ?w2\<lparr>themes := (themes ?w2)[theme := X]\<rparr>)
           | Inr d \<Rightarrow> (None, ?w2\<lparr>themes := (themes ?w2)[theme := d]\<rparr>))"
        by blast
      then show ?thesis
        using Some Inr Cons.prems
        by (intro exI [of _ X]) (simp add: Let_def split: sum.splits)
    qed
  qed
qed

lemma generateDuckduckgoTheme_store_eq:
  "\<exists>X. generateDuckduckgoTheme_store pal template w =
     (case generateDuckduckgoTheme (constants w) (objects w ! pal) template of
        Inl e \<Rightarrow>
          (Inl e, w\<lparr>themes := themes w @ [X], arrays := arrays w @ [Object_keys template]\<rparr>)
      | Inr d \<Rightarrow>
          (Inr (length (themes w)),
           w\<lparr>themes := themes w @ [d], arrays := arrays w @ [Object_keys template]\<rparr>))"
proof -
  let ?w2 = "w\<lparr>themes := themes w @ [[]], arrays := arrays w @ [Object_keys template]\<rparr>"
  have "length (themes w) < length (themes ?w2)"
    by simp
  from duckduckgoKeys_store_eq [OF this, of pal template "Object_keys template"]
  obtain X where X: "duckduckgoKeys_store pal template (length (themes w))
                       (Object_keys template) ?w2 =
        (case duckduckgoKeys (changeLuminance (constants w)) (objects w ! pal) template
                (Object_keys template) [] of
           Inl e \<Rightarrow> (Some e, ?w2\<lparr>themes := (themes ?w2)[length (themes w) := X]\<rparr>)
         | Inr d \<Rightarrow> (None, ?w2\<lparr>themes := (themes ?w2)[length (themes w) := d]\<rparr>))"
    by auto
  show ?thesis
    by (intro exI [of _ X])
       (simp add: generateDuckduckgoTheme_store_def generateDuckduckgoTheme_def Let_def X
          split: sum.splits)
qed

lemma generateDuckduckgoTheme_store_Inr:
  assumes "generateDuckduckgoTheme (constants w) (objects w ! pal) template = Inr d"
  shows "generateDuckduckgoTheme_store pal template w =
          (Inr (length (themes w)),
           w\<lparr>themes := themes w @ [d], arrays := arrays w @ [Object_keys template]\<rparr>)"
  using generateDuckduckgoTheme_store_eq [of pal template w] assms by auto

lemma generateDuckduckgoTheme_store_Inl:
  assumes "generateDuckduckgoTheme (constants w) (objects w ! pal) template = Inl e"
  shows "\<exists>X. generateDuckduckgoTheme_store pal template w =
          (Inl e, w\<lparr>themes := themes w @ [X], arrays := arrays w @ [Object_keys template]\<rparr>)"
  using generateDuckduckgoTheme_store_eq [of pal template w] assms by auto

lemma generateColorscheme_store_result:
  assumes "pywalColors < length (arrays w)" and "customColors < length (objects w)"
    and "distinct (map fst (objects w ! customColors))"
    and "generateColorscheme_store mode pywalColors customColors template w = (res, v)"
  shows "constants v = constants w
       \<and> take (length (arrays w)) (arrays v) = arrays w
       \<and> take (length (objects w)) (objects v) = objects w
       \<and> take (length (themes w)) (themes v) = themes w
       \<and> map_sum id (contents v) res
           = generateColorscheme (constants w) mode (arrays w ! pywalColors)
               (objects w ! customColors) template"
proof -
  let ?P = "generatePalette (constants w) (arrays w ! pywalColors)
              (objects w ! customColors) (template_palette template)"
  let ?w1 = "w\<lparr>objects := objects w @ [?P]\<rparr>"
  let ?w2 = "?w1\<lparr>arrays := arrays w @ [array_sort compareKeys (Object_keys ?P)]\<rparr>"
  let ?B = "generateBrowserTheme (constants w) ?P (template_browser template)"
  let ?w3 = "?w2\<lparr>objects := objects w @ [?P, ?B]\<rparr>"
  have pal: "generatePalette_store pywalColors customColors (template_palette template) w
               = (length (objects w), ?w1)"
    using assms(1-3) by (rule generatePalette_store_eq)
  have hash: "generatePaletteHash_store (length (objects w)) ?w1 = (generatePaletteHash ?P, ?w2)"
    by (simp add: generatePaletteHash_store_eq)
  have brow: "generateBrowserTheme_store (length (objects w)) (template_browser template) ?w2
               = (Suc (length (objects w)), ?w3)"
    by (simp add: generateBrowserTheme_store_eq)
  have P3: "objects ?w3 ! length (objects w) = ?P" and c3: "constants ?w3 = constants w"
    by simp_all
  show ?thesis
  proof (cases "generatePaletteHash ?P")
    case (Inl e)
    then show ?thesis
      using assms(4)
      by (auto simp: generateColorscheme_store_def generateColorscheme_def Let_def pal hash)
  next
    case h: (Inr hsh)
    show ?thesis
    proof (cases "generateDuckduckgoTheme (constants w) ?P (template_duckduckgo template)")
      case (Inl e)
      then have "generateDuckduckgoTheme (constants ?w3) (objects ?w3 ! length (objects w))
                   (template_duckduckgo template) = Inl e"
        by (simp only: P3 c3)
      from generateDuckduckgoTheme_store_Inl [OF this] obtain X where
        "generateDuckduckgoTheme_store (length (objects w)) (template_duckduckgo template) ?w3
           = (Inl e, ?w3\<lparr>themes := themes ?w3 @ [X],
                          arrays := arrays ?w3 @ [Object_keys (template_duckduckgo template)]\<rparr>)"
        by blast
      then show ?thesis
        using assms(4) h Inl
        by (auto simp: generateColorscheme_store_def generateColorscheme_def Let_def pal hash
            brow)
    next
      case (Inr d)
      then have "generateDuckduckgoTheme (constants ?w3) (objects ?w3 ! length (objects w))
                   (template_duckduckgo template) = Inr d"
        by (simp only: P3 c3)
      from generateDuckduckgoTheme_store_Inr [OF this]
      have "generateDuckduckgoTheme_store (length (objects w)) (template_duckduckgo template) ?w3
           = (Inr (length (themes ?w3)),
              ?w3\<lparr>themes := themes ?w3 @ [d],
                    arrays := arrays ?w3 @ [Object_keys (template_duckduckgo template)]\<rparr>)" .
      then show ?thesis
        using assms(4) h Inr
        by (auto simp: generateColorscheme_store_def generateColorscheme_def Let_def pal hash
            brow generateDarkreaderScheme_store_def generateExtensionTheme_store_def
            contents_def nth_append)
    qed
  qed
qed

text \<open>
  C9. \<^verbatim>\<open>generateColorscheme\<close> is called twice, in any two worlds, at any moments: the
  two worlds hold the same imported constants, the two calls get the same mode and
  template, and the raw palettes and the custom colours they are handed, by whatever
  references, have the same contents. Whatever else the two worlds hold, the two calls
  throw the same exception, or return colorschemes with the same \<^verbatim>\<open>hash\<close> and
  \<^verbatim>\<open>extension\<close> strings and with \<^verbatim>\<open>palette\<close>, \<^verbatim>\<open>browser\<close>, \<^verbatim>\<open>duckduckgo\<close> and
  \<^verbatim>\<open>darkreader\<close> objects of equal contents. A call leaves the constants and every array,
  object and theme that existed before it unchanged, its own arguments among them, so
  the second call may also come after the first with the very same references. The
  result is the value of the function \<open>generateColorscheme\<close> of the previous section on
  the contents of the arguments.
\<close>

theorem generateColorscheme_store_deterministic:
  assumes "constants w' = constants w"
    and "pywalColors < length (arrays w)" and "customColors < length (objects w)"
    and "pywalColors' < length (arrays w')" and "customColors' < length (objects w')"
    and "arrays w' ! pywalColors' = arrays w ! pywalColors"
    and "objects w' ! customColors' = objects w ! customColors"
    and "distinct (map fst (objects w ! customColors))"
    and "generateColorscheme_store mode pywalColors customColors template w = (res, v)"
    and "generateColorscheme_store mode pywalColors' customColors' template w' = (res', v')"
  shows "map_sum id (contents v') res' = map_sum id (contents v) res
       \<and> (\<forall>e. res = Inl e \<longrightarrow> res' = Inl e)
       \<and> (\<forall>r. res = Inr r \<longrightarrow>
             (\<exists>r'. res' = Inr r'
                \<and> hash_of r' = hash_of r
                \<and> objects v' ! palette_ref r' = objects v ! palette_ref r
                \<and> objects v' ! browser_ref r' = objects v ! browser_ref r
                \<and> extension_of r' = extension_of r
                \<and> themes v' ! duckduckgo_ref r' = themes v ! duckduckgo_ref r
                \<and> objects v' ! darkreader_ref r' = objects v ! darkreader_ref r))
       \<and> constants v = constants w
       \<and> take (length (arrays w)) (arrays v) = arrays w
       \<and> take (length (objects w)) (objects v) = objects w
       \<and> take (length (themes w)) (themes v) = themes w
       \<and> arrays v ! pywalColors = arrays w ! pywalColors
       \<and> objects v ! customColors = objects w ! customColors
       \<and> map_sum id (contents v) res
           = generateColorscheme (constants w) mode (arrays w ! pywalColors)
               (objects w ! customColors) template"
proof -
  have first: "constants v = constants w
       \<and> take (length (arrays w)) (arrays v) = arrays w
       \<and> take (length (objects w)) (objects v) = objects w
       \<and> take (length (themes w)) (themes v) = themes w
       \<and> map_sum id (contents v) res
           = generateColorscheme (constants w) mode (arrays w ! pywalColors)
               (objects w ! customColors) template"
    using assms(2,3,8,9) by (rule generateColorscheme_store_result)
  have "distinct (map fst (objects w' ! customColors'))"
    using assms(7,8) by simp
  with assms(4,5) have "map_sum id (contents v') res'
           = generateColorscheme (constants w') mode (arrays w' ! pywalColors')
               (objects w' ! customColors') template"
    using assms(10) by (intro generateColorscheme_store_result [THEN conjunct2, THEN conjunct2,
          THEN conjunct2, THEN conjunct2])
  then have same: "map_sum id (contents v') res' = map_sum id (contents v) res"
    using first assms(1,6,7) by simp
  have errors: "\<forall>e. res = Inl e \<longrightarrow> res' = Inl e"
    using same by (cases res'; cases res) simp_all
  have fields: "\<forall>r. res = Inr r \<longrightarrow>
             (\<exists>r'. res' = Inr r'
                \<and> hash_of r' = hash_of r
                \<and> objects v' ! palette_ref r' = objects v ! palette_ref r
                \<and> objects v' ! browser_ref r' = objects v ! browser_ref r
                \<and> extension_of r' = extension_of r
                \<and> themes v' ! duckduckgo_ref r' = themes v ! duckduckgo_ref r
                \<and> objects v' ! darkreader_ref r' = objects v ! darkreader_ref r)"
    using same by (cases res'; cases res) (simp_all add: contents_def)
  have "arrays v ! pywalColors = take (length (arrays w)) (arrays v) ! pywalColors"
    using assms(2) by simp
  then have arg1: "arrays v ! pywalColors = arrays w ! pywalColors"
    using first by simp
  have "objects v ! customColors = take (length (objects w)) (objects v) ! customColors"
    using assms(3) by simp
  then have arg2: "objects v ! customColors = objects w ! customColors"
    using first by simp
  from same errors fields first arg1 arg2 show ?thesis
    by blast
qed

text \<open>
  Two calls one after the other, with the same references: a raw palette of two colours,
  one custom colour, and a template for each target. The second call runs in the world
  the first one leaves; it returns other references, to objects of the same contents.
\<close>

theorem generateColorscheme_store_deterministic_witness:
  "let t = \<lparr>template_palette = [(''background'', 0), (''text'', 1)],
          template_browser = [(''frame'', ''background'')],
          template_duckduckgo =
            [(''k7'', \<lparr>colorKey = ''background'', item_modifier = None\<rparr>),
             (''k8'', \<lparr>colorKey = ''text'', item_modifier = Some 2\<rparr>)]\<rparr>;
       w = \<lparr>constants =
            \<lparr>PALETTE_TEMPLATE_DATA =
               [\<lparr>target = ''background'', cssVariable = Some ''--background''\<rparr>,
                \<lparr>target = ''text'', cssVariable = Some ''--text''\<rparr>],
             BROWSER_TEMPLATE_DATA = [\<lparr>target = ''frame'', cssVariable = None\<rparr>],
             EXTENSION_THEME_SELCTOR = '':root'',
             EXTENDED_PYWAL_COLORS = [],
             changeLuminance = (\<lambda>c (m::int) lo hi. interpolate c)\<rparr>,
          arrays = [[''#1d2021'', ''#cc241d'']],
          objects = [[(''text'', Some ''#ffffff'')]],
          themes = []\<rparr>
   in (case generateColorscheme_store Dark 0 0 t w of
         (res, v) \<Rightarrow>
           (case generateColorscheme_store Dark 0 0 t v of
              (res', v') \<Rightarrow>
                0 < length (arrays w) \<and> 0 < length (objects w)
                \<and> distinct (map fst (objects w ! 0))
                \<and> constants v = constants w
                \<and> arrays v ! 0 = arrays w ! 0 \<and> objects v ! 0 = objects w ! 0
                \<and> res = Inr \<lparr>hash_of = ''1d2021ffffff'', palette_ref = 1, browser_ref = 2,
                 extension_of = '':root{--background:#1d2021;--text:#ffffff;}'',
                 duckduckgo_ref = 0, darkreader_ref = 3\<rparr>
                \<and> res' = Inr \<lparr>hash_of = ''1d2021ffffff'', palette_ref = 4, browser_ref = 5,
                 extension_of = '':root{--background:#1d2021;--text:#ffffff;}'',
                 duckduckgo_ref = 1, darkreader_ref = 6\<rparr>
                \<and> map_sum id (contents v') res' = map_sum id (contents v) res
                \<and> map_sum id (contents v) res
                    = Inr \<lparr>hash = ''1d2021ffffff'',
                 palette = [(''background'', Some ''#1d2021''), (''text'', Some ''#ffffff'')],
                 browser = [(''frame'', Some ''#1d2021'')],
                 extension = '':root{--background:#1d2021;--text:#ffffff;}'',
                 duckduckgo = [(''k7'', ''1d2021''), (''k8'', ''ffffff'')],
                 darkreader = [(''darkSchemeTextColor'', Some ''#ffffff''),
               (''darkSchemeBackgroundColor'', Some ''#1d2021'')]\<rparr>))"
proof -
  let ?t = "\<lparr>template_palette = [(''background'', 0), (''text'', 1)],
          template_browser = [(''frame'', ''background'')],
          template_duckduckgo =
            [(''k7'', \<lparr>colorKey = ''background'', item_modifier = None\<rparr>),
             (''k8'', \<lparr>colorKey = ''text'', item_modifier = Some 2\<rparr>)]\<rparr>"
  let ?w = "\<lparr>constants =
            \<lparr>PALETTE_TEMPLATE_DATA =
               [\<lparr>target = ''background'', cssVariable = Some ''--background''\<rparr>,
                \<lparr>target = ''text'', cssVariable = Some ''--text''\<rparr>],
             BROWSER_TEMPLATE_DATA = [\<lparr>target = ''frame'', cssVariable = None\<rparr>],
             EXTENSION_THEME_SELCTOR = '':root'',
             EXTENDED_PYWAL_COLORS = [],
             changeLuminance = (\<lambda>c (m::int) lo hi. interpolate c)\<rparr>,
          arrays = [[''#1d2021'', ''#cc241d'']],
          objects = [[(''text'', Some ''#ffffff'')]],
          themes = []\<rparr>"
  let ?v = "\<lparr>constants =
            \<lparr>PALETTE_TEMPLATE_DATA =
               [\<lparr>target = ''background'', cssVariable = Some ''--background''\<rparr>,
                \<lparr>target = ''text'', cssVariable = Some ''--text''\<rparr>],
             BROWSER_TEMPLATE_DATA = [\<lparr>target = ''frame'', cssVariable = None\<rparr>],
             EXTENSION_THEME_SELCTOR = '':root'',
             EXTENDED_PYWAL_COLORS = [],
             changeLuminance = (\<lambda>c (m::int) lo hi. interpolate c)\<rparr>,
          arrays = [[''#1d2021'', ''#cc241d''],
                    [''background'', ''text''],
                    [''k7'', ''k8'']],
          objects = [[(''text'', Some ''#ffffff'')],
              [(''background'', Some ''#1d2021''), (''text'', Some ''#ffffff'')],
              [(''frame'', Some ''#1d2021'')],
              [(''darkSchemeTextColor'', Some ''#ffffff''),
               (''darkSchemeBackgroundColor'', Some ''#1d2021'')]],
          themes = [[(''k7'', ''1d2021''), (''k8'', ''ffffff'')]]\<rparr>"
  let ?v' = "\<lparr>constants =
            \<lparr>PALETTE_TEMPLATE_DATA =
               [\<lparr>target = ''background'', cssVariable = Some ''--background''\<rparr>,
                \<lparr>target = ''text'', cssVariable = Some ''--text''\<rparr>],
             BROWSER_TEMPLATE_DATA = [\<lparr>target = ''frame'', cssVariable = None\<rparr>],
             EXTENSION_THEME_SELCTOR = '':root'',
             EXTENDED_PYWAL_COLORS = [],
             changeLuminance = (\<lambda>c (m::int) lo hi. interpolate c)\<rparr>,
          arrays = [[''#1d2021'', ''#cc241d''],
                    [''background'', ''text''],
                    [''k7'', ''k8''],
                    [''background'', ''text''],
                    [''k7'', ''k8'']],
          objects = [[(''text'', Some ''#ffffff'')],
              [(''background'', Some ''#1d2021''), (''text'', Some ''#ffffff'')],
              [(''frame'', Some ''#1d2021'')],
              [(''darkSchemeTextColor'', Some ''#ffffff''),
               (''darkSchemeBackgroundColor'', Some ''#1d2021'')],
              [(''background'', Some ''#1d2021''), (''text'', Some ''#ffffff'')],
              [(''frame'', Some ''#1d2021'')],
              [(''darkSchemeTextColor'', Some ''#ffffff''),
               (''darkSchemeBackgroundColor'', Some ''#1d2021'')]],
          themes = [[(''k7'', ''1d2021''), (''k8'', ''ffffff'')], [(''k7'', ''1d2021''), (''k8'', ''ffffff'')]]\<rparr>"
  let ?r = "\<lparr>hash_of = ''1d2021ffffff'', palette_ref = 1, browser_ref = 2,
                 extension_of = '':root{--background:#1d2021;--text:#ffffff;}'',
                 duckduckgo_ref = 0, darkreader_ref = 3\<rparr>"
  let ?r' = "\<lparr>hash_of = ''1d2021ffffff'', palette_ref = 4, browser_ref = 5,
                 extension_of = '':root{--background:#1d2021;--text:#ffffff;}'',
                 duckduckgo_ref = 1, darkreader_ref = 6\<rparr>"
  have first: "generateColorscheme_store Dark 0 0 ?t ?w = (Inr ?r, ?v)"
    by (simp add: generateColorscheme_store_def generatePalette_store_def
        createObjectFromTemplateData_store_def assign_property_def Object_assign_store_def
        generatePaletteHash_store_def generateBrowserTheme_store_def
        generateDuckduckgoTheme_store_def generateExtensionTheme_store_def
        generateDarkreaderScheme_store_def generateExtensionTheme_def
        generateDarkreaderScheme_def obj_set_def obj_get_def Object_keys_def array_index_def
        array_get_def object_index_def array_sort_def compareKeys_def stripHashSymbol_def
        interpolate_def Let_def)
  have second: "generateColorscheme_store Dark 0 0 ?t ?v = (Inr ?r', ?v')"
    by (simp add: generateColorscheme_store_def generatePalette_store_def
        createObjectFromTemplateData_store_def assign_property_def Object_assign_store_def
        generatePaletteHash_store_def generateBrowserTheme_store_def
        generateDuckduckgoTheme_store_def generateExtensionTheme_store_def
        generateDarkreaderScheme_store_def generateExtensionTheme_def
        generateDarkreaderScheme_def obj_set_def obj_get_def Object_keys_def array_index_def
        array_get_def object_index_def array_sort_def compareKeys_def stripHashSymbol_def
        interpolate_def Let_def)
  have "map_sum id (contents ?v') (Inr ?r') = map_sum id (contents ?v) (Inr ?r)"
    using generateColorscheme_store_deterministic
      [of ?v ?w 0 0 0 0 Dark ?t "Inr ?r" ?v "Inr ?r'" ?v'] first second
    by simp
  then show ?thesis
    using first second by (simp add: contents_def)
qed

end
